theory Spec2Isabelle
  imports Main "HOL-Library.Sublist"
begin

section \<open>Temper: template engine discovery and compilation (temper.js)\<close>

text \<open>
  A shallow embedding of \<^verbatim>\<open>src/temper.js\<close>. The object's fields are a record that
  every method takes and returns; a JavaScript exception is the \<open>Inl\<close> of a sum; what
  the file gets from Node (\<^verbatim>\<open>require\<close>, \<^verbatim>\<open>require.resolve\<close>, the \<^verbatim>\<open>path\<close> module)
  and from the template engines is a parameter, the record \<open>node\<close>. Strings are lists
  of 8-bit characters.
\<close>

subsection \<open>Values, errors and the world outside the file\<close>

text \<open>
  Every \<^verbatim>\<open>throw\<close> of the file is \<^verbatim>\<open>new Error(message)\<close>; the constructor
  says which \<^verbatim>\<open>throw\<close> it is (line 42, line 70, line 90) and carries the message.
  \<open>Thrown\<close> is an exception raised outside the file (by a template engine, by
  \<^verbatim>\<open>require.resolve\<close>, by a call on \<^verbatim>\<open>undefined\<close>), which the file lets through.
\<close>

datatype error =
    BackendNotInstalled string
  | UnknownExtension string
  | NoBackendAvailable string
  | Thrown string

type_synonym data = "(string \<times> string) list"

text \<open>
  What a template engine hands back: nothing, a string, a function (its source text, as
  \<^verbatim>\<open>toString()\<close> gives it, and what calling it on a data object does), or an object
  with a \<^verbatim>\<open>render(data)\<close> method.
\<close>

datatype val =
    Undefined
  | Str string
  | Fn string "data \<Rightarrow> error + string"
  | Obj "data \<Rightarrow> error + string"

text \<open>The options object of a native \<^verbatim>\<open>compile\<close> call, as its list of properties.\<close>

datatype opt = AsString nat | Client bool | Pretty bool | CompileDebug bool

text \<open>A loaded template engine: its \<^verbatim>\<open>compile\<close> and \<^verbatim>\<open>precompile\<close> entry points.\<close>

record module =
  m_compile :: "string \<Rightarrow> opt list \<Rightarrow> error + val"
  m_precompile :: "string \<Rightarrow> error + val"

text \<open>
  Node, as the file uses it. \<open>node_require\<close> is \<^verbatim>\<open>require(engine)\<close>, \<open>None\<close> when it
  throws; \<open>require_resolve\<close> is \<^verbatim>\<open>require.resolve(engine)\<close>, \<open>None\<close> when it throws.
  The functions of the \<^verbatim>\<open>path\<close> module are parameters too, so that what is proved
  holds on every platform.
\<close>

record node =
  node_require :: "string \<Rightarrow> module option"
  require_resolve :: "string \<Rightarrow> string option"
  path_extname :: "string \<Rightarrow> string"
  path_dirname :: "string \<Rightarrow> string"
  path_join :: "string list \<Rightarrow> string"

text \<open>
  The calls that leave a method, in the order they happen: \<open>Load e\<close> is a call of
  \<^verbatim>\<open>Temper.prototype.require(e)\<close>, \<open>Acquire e\<close> a call of Node's \<^verbatim>\<open>require(e)\<close>.
\<close>

datatype event = Load string | Acquire string

text \<open>
  The fields the constructor sets (lines 11-15), and \<open>calls\<close>, the log of the calls
  made so far (a load-attempt counter with names; not a field of the object).
\<close>

record temper =
  cache :: "string \<rightharpoonup> string"
  installed :: "string \<rightharpoonup> string"
  required :: "string \<rightharpoonup> module"
  calls :: "event list"

definition Temper :: temper where
  "Temper = \<lparr>cache = Map.empty, installed = Map.empty, required = Map.empty, calls = []\<rparr>"

text \<open>
  \<^verbatim>\<open>Temper.prototype.supported\<close> (lines 24-28). \<^verbatim>\<open>path.extname\<close> gives the empty
  string or a string that starts with a dot, so no inherited property of the object
  literal is ever looked up.
\<close>

definition supported :: "string \<rightharpoonup> string list" where
  "supported extname =
     (if extname = ''.ejs'' then Some [''ejs'']
      else if extname = ''.jade'' then Some [''jade'']
      else if extname = ''.mustache'' then Some [''hogan.js'', ''mustache'', ''handlebars'']
      else None)"

subsection \<open>The JavaScript built-ins the file calls\<close>

text \<open>\<^verbatim>\<open>Array.prototype.join(sep)\<close> on an array of strings.\<close>

fun join :: "string \<Rightarrow> string list \<Rightarrow> string" where
  "join sep [] = []"
| "join sep [x] = x"
| "join sep (x # y # ys) = x @ sep @ join sep (y # ys)"

text \<open>The string a value turns into (\<^verbatim>\<open>ToString\<close>).\<close>

fun to_text :: "val \<Rightarrow> string" where
  "to_text Undefined = ''undefined''"
| "to_text (Str s) = s"
| "to_text (Fn src f) = src"
| "to_text (Obj r) = ''[object Object]''"

text \<open>An element of an array under \<^verbatim>\<open>join\<close>: \<^verbatim>\<open>undefined\<close> is the empty string.\<close>

fun join_text :: "val \<Rightarrow> string" where
  "join_text Undefined = []"
| "join_text v = to_text v"

text \<open>The method call \<^verbatim>\<open>v.toString()\<close>: a TypeError on \<^verbatim>\<open>undefined\<close>.\<close>

fun toString :: "val \<Rightarrow> error + string" where
  "toString Undefined = Inl (Thrown ''TypeError'')"
| "toString v = Inr (to_text v)"

text \<open>
  \<^verbatim>\<open>String.prototype.replace(pattern, replacement)\<close> with two strings: the first
  occurrence of the pattern only, and in the replacement \<^verbatim>\<open>$$\<close> stands for a dollar,
  \<^verbatim>\<open>$&\<close> for the match, \<^verbatim>\<open>$`\<close> for the text before it and \<^verbatim>\<open>$'\<close> for the text
  after it. \<open>find_first\<close> splits a string at the first occurrence.
\<close>

fun find_first :: "string \<Rightarrow> string \<Rightarrow> (string \<times> string) option" where
  "find_first pat [] = (if pat = [] then Some ([], []) else None)"
| "find_first pat (c # cs) =
     (if prefix pat (c # cs) then Some ([], drop (length pat) (c # cs))
      else (case find_first pat cs of
              None \<Rightarrow> None
            | Some (pre, post) \<Rightarrow> Some (c # pre, post)))"

fun substitution :: "string \<Rightarrow> string \<Rightarrow> string \<Rightarrow> string \<Rightarrow> string" where
  "substitution matched pre post (c # d # r) =
     (if c = CHR ''$'' then
        (if d = CHR ''$'' then CHR ''$'' # substitution matched pre post r
         else if d = CHR ''&'' then matched @ substitution matched pre post r
         else if d = CHR 0x60 then pre @ substitution matched pre post r
         else if d = CHR 0x27 then post @ substitution matched pre post r
         else c # substitution matched pre post (d # r))
      else c # substitution matched pre post (d # r))"
| "substitution matched pre post r = r"

definition replace :: "string \<Rightarrow> string \<Rightarrow> string \<Rightarrow> string" where
  "replace s pat repl =
     (case find_first pat s of
        None \<Rightarrow> s
      | Some (pre, post) \<Rightarrow> pre @ substitution pat pre post repl @ post)"

subsection \<open>Temper.prototype.require (lines 37-46)\<close>

definition requires :: "node \<Rightarrow> temper \<Rightarrow> string \<Rightarrow> (error + module) \<times> temper" where
  "requires nd this engine =
     (let this = this\<lparr>calls := calls this @ [Load engine]\<rparr> in
      case required this engine of
        Some m \<Rightarrow> (Inr m, this)
      | None \<Rightarrow>
          (let this = this\<lparr>calls := calls this @ [Acquire engine]\<rparr> in
           case node_require nd engine of
             None \<Rightarrow>
               (Inl (BackendNotInstalled
                  (''The '' @ engine @ '' module isnt installed. Run npm install --save '' @ engine)),
                this)
           | Some m \<Rightarrow> (Inr m, this\<lparr>required := (required this)(engine \<mapsto> m)\<rparr>)))"

subsection \<open>Temper.prototype.discover (lines 55-91)\<close>

text \<open>
  The callback of \<^verbatim>\<open>list.filter\<close> (lines 72-82), run over the whole list:
  \<^verbatim>\<open>Array.prototype.filter\<close> calls it on every element, in order, and keeps those for
  which it returns true.
\<close>

fun filter_engines :: "node \<Rightarrow> string \<Rightarrow> string list \<Rightarrow> temper \<Rightarrow> string list \<times> temper" where
  "filter_engines nd extname [] this = ([], this)"
| "filter_engines nd extname (engine # rest) this =
     (case requires nd this engine of
        (Inl e, this1) \<Rightarrow> filter_engines nd extname rest this1
      | (Inr compiler, this1) \<Rightarrow>
          (let this2 = this1\<lparr>required := (required this1)(engine \<mapsto> compiler)\<rparr>;
               this3 = this2\<lparr>installed := (installed this2)(extname \<mapsto> engine)\<rparr>;
               (found, this4) = filter_engines nd extname rest this3
           in (engine # found, this4)))"

definition discover :: "node \<Rightarrow> temper \<Rightarrow> string \<Rightarrow> (error + string) \<times> temper" where
  "discover nd this file =
     (let extname = path_extname nd file;
          list = supported extname
      in case installed this extname of
           Some engine \<Rightarrow> (Inr engine, this)
         | None \<Rightarrow>
             (case list of
                None \<Rightarrow>
                  (Inl (UnknownExtension
                     ''Unknown file extensions, cannot detect template engine.''), this)
              | Some l \<Rightarrow>
                  (case filter_engines nd extname l this of
                     (found, this') \<Rightarrow>
                       (case found of
                          first # others \<Rightarrow> (Inr first, this')
                        | [] \<Rightarrow>
                            (Inl (NoBackendAvailable
                               (''No valid template engine installed, please install ''
                                @ join ''or'' l)), this')))))"

subsection \<open>Temper.prototype.compile (lines 102-179)\<close>

text \<open>Sequencing of calls that may throw: the first exception ends the method.\<close>

definition bindE :: "error + 'a \<Rightarrow> ('a \<Rightarrow> error + 'b) \<Rightarrow> error + 'b" where
  "bindE m f = (case m of Inl e \<Rightarrow> Inl e | Inr v \<Rightarrow> f v)"

definition resolve :: "node \<Rightarrow> string \<Rightarrow> error + string" where
  "resolve nd engine =
     (case require_resolve nd engine of
        None \<Rightarrow> Inl (Thrown ''Cannot find module'')
      | Some file \<Rightarrow> Inr file)"

text \<open>
  The closure of lines 113-117: a function that calls the \<^verbatim>\<open>render\<close> method of the
  compiled template; the call is a TypeError when there is no such method.
\<close>

definition hulk :: "val \<Rightarrow> val" where
  "hulk template =
     Fn (''function render(data) {'' @ [CHR 0x0A] @
         ''          return template.render(data);'' @ [CHR 0x0A] @
         ''        }'')
        (\<lambda>data. case template of Obj render \<Rightarrow> render data | _ \<Rightarrow> Inl (Thrown ''TypeError''))"

text \<open>The Compilation Result, the object of lines 174-178.\<close>

record result =
  library :: string
  client :: val
  server :: val

text \<open>
  The \<^verbatim>\<open>switch\<close> of lines 106-172: the path of the runtime library (\<open>None\<close> when the
  variable stays \<^verbatim>\<open>undefined\<close>), the client and the server.
\<close>

definition switch_engine ::
  "node \<Rightarrow> module \<Rightarrow> string \<Rightarrow> string \<Rightarrow> string \<Rightarrow> error + (string option \<times> val \<times> val)" where
  "switch_engine nd compiler template engine name =
     (if engine = ''hogan.js'' then
        bindE (m_compile compiler template []) (\<lambda>t.
        bindE (m_compile compiler template [AsString 1]) (\<lambda>s.
        bindE (resolve nd engine) (\<lambda>file.
          Inr (Some (path_join nd [path_dirname nd file, ''template.js'']),
               Str (join [] [
                 ''(function hulk() {'',
                   ''var template = new Hogan.Template('',
                     join_text s,
                   '');'',
                 ''return function render(data) { return template.render(data); };'']),
               hulk t))))
      else if engine = ''handlebars'' then
        bindE (m_compile compiler template []) (\<lambda>srv.
        bindE (m_precompile compiler template) (\<lambda>cl.
        bindE (resolve nd engine) (\<lambda>file.
          Inr (Some (path_join nd [path_dirname nd file, ''..'', ''dist'', ''handlebars.runtime.js'']),
               cl, srv))))
      else if engine = ''ejs'' then
        bindE (m_compile compiler template []) (\<lambda>srv.
        bindE (m_compile compiler template [Client True, CompileDebug False]) (\<lambda>c.
        bindE (toString c) (\<lambda>s.
          Inr (None, Str (replace s ''function anonymous'' (''function '' @ name)), srv))))
      else if engine = ''jade'' then
        bindE (m_compile compiler template []) (\<lambda>srv.
        bindE (m_compile compiler template [Client True, Pretty True, CompileDebug False]) (\<lambda>c.
        bindE (toString c) (\<lambda>s.
        bindE (resolve nd engine) (\<lambda>file.
          Inr (Some (path_join nd [path_dirname nd file, ''runtime.js'']),
               Str (replace s ''function anonymous'' (''function '' @ name)), srv)))))
      else Inr (None, Undefined, Undefined))"

text \<open>
  Line 175, \<^verbatim>\<open>library ? this.read(library) : ''\<close>: \<^verbatim>\<open>this.read\<close> is called when the path
  is neither \<^verbatim>\<open>undefined\<close> nor the empty string. The file defines no
  \<^verbatim>\<open>Temper.prototype.read\<close> and the constructor sets no \<^verbatim>\<open>read\<close> field, so
  \<^verbatim>\<open>this.read\<close> is \<^verbatim>\<open>undefined\<close> and the call is a TypeError.
\<close>

definition read_library :: "string option \<Rightarrow> error + string" where
  "read_library lib =
     (case lib of
        None \<Rightarrow> Inr []
      | Some p \<Rightarrow> (if p = [] then Inr [] else Inl (Thrown ''TypeError'')))"

definition compile ::
  "node \<Rightarrow> temper \<Rightarrow> string \<Rightarrow> string \<Rightarrow> string \<Rightarrow> (error + result) \<times> temper" where
  "compile nd this template engine name =
     (case requires nd this engine of
        (Inl e, this1) \<Rightarrow> (Inl e, this1)
      | (Inr compiler, this1) \<Rightarrow>
          (bindE (switch_engine nd compiler template engine name) (\<lambda>(lib, cl, srv).
           bindE (read_library lib) (\<lambda>contents.
             Inr \<lparr>library = contents, client = cl, server = srv\<rparr>)),
           this1))"

subsection \<open>Notions the properties are stated with\<close>

text \<open>
  The handle a load of \<open>engine\<close> gives in a state: the cached one, or else the one Node
  has; an engine is loadable when there is one.
\<close>

definition loaded :: "node \<Rightarrow> temper \<Rightarrow> string \<Rightarrow> module option" where
  "loaded nd this engine =
     (case required this engine of Some m \<Rightarrow> Some m | None \<Rightarrow> node_require nd engine)"

definition loadable :: "node \<Rightarrow> temper \<Rightarrow> string \<Rightarrow> bool" where
  "loadable nd this engine = (loaded nd this engine \<noteq> None)"

text \<open>The engines the Loader was called on, in order of the calls.\<close>

fun loads :: "event list \<Rightarrow> string list" where
  "loads [] = []"
| "loads (Load e # evs) = e # loads evs"
| "loads (Acquire e # evs) = loads evs"

text \<open>The engines Node's \<^verbatim>\<open>require\<close> was called on, in order of the calls.\<close>

fun acquires :: "event list \<Rightarrow> string list" where
  "acquires [] = []"
| "acquires (Load e # evs) = acquires evs"
| "acquires (Acquire e # evs) = e # acquires evs"

text \<open>
  What holds of the caches in every state the methods reach from a new object: an
  extension's cached engine is one of its candidates, and its module is cached.
\<close>

definition wf :: "temper \<Rightarrow> bool" where
  "wf this =
     (\<forall>extname engine. installed this extname = Some engine \<longrightarrow>
        (\<exists>l. supported extname = Some l \<and> engine \<in> set l) \<and> required this engine \<noteq> None)"

text \<open>
  A replacement string has a pattern when a dollar sign in it is followed by a dollar
  sign, an ampersand, a backquote or a quote: the pairs \<^verbatim>\<open>replace\<close> does not copy.
\<close>

fun dollar_pattern :: "string \<Rightarrow> bool" where
  "dollar_pattern (c # d # r) =
     (c = CHR ''$'' \<and> (d = CHR ''$'' \<or> d = CHR ''&'' \<or> d = CHR 0x60 \<or> d = CHR 0x27) \<or>
      dollar_pattern (d # r))"
| "dollar_pattern r = False"

text \<open>The states the methods reach from a new object, in any environment.\<close>

inductive reachable :: "temper \<Rightarrow> bool" where
  r_new: "reachable Temper"
| r_require: "reachable this \<Longrightarrow> reachable (snd (requires nd this engine))"
| r_discover: "reachable this \<Longrightarrow> reachable (snd (discover nd this file))"
| r_compile: "reachable this \<Longrightarrow> reachable (snd (compile nd this template engine name))"

text \<open>The identifiers the \<^verbatim>\<open>switch\<close> of \<^verbatim>\<open>compile\<close> has a case for.\<close>

definition dispatch_set :: "string set" where
  "dispatch_set = {''hogan.js'', ''handlebars'', ''ejs'', ''jade''}"

text \<open>
  The companion runtime library of an engine as the specification lists it, as path
  segments from the directory of the engine's main file: \<^verbatim>\<open>template.js\<close> for
  hogan.js, the runtime of the \<^verbatim>\<open>dist\<close> directory for handlebars, \<^verbatim>\<open>runtime.js\<close> for
  jade, none for ejs.
\<close>

definition spec_runtime_library :: "string \<rightharpoonup> string list" where
  "spec_runtime_library engine =
     (if engine = ''hogan.js'' then Some [''template.js'']
      else if engine = ''handlebars'' then Some [''..'', ''dist'', ''handlebars.runtime.js'']
      else if engine = ''jade'' then Some [''runtime.js'']
      else None)"

text \<open>
  Balanced brackets: \<open>scan\<close> keeps the stack of the closing brackets it waits for;
  a string is balanced when every bracket it opens is closed, in order.
\<close>

fun scan :: "string \<Rightarrow> string \<Rightarrow> bool" where
  "scan stack [] = (stack = [])"
| "scan stack (c # cs) =
     (if c = CHR ''('' then scan (CHR '')'' # stack) cs
      else if c = CHR ''{'' then scan (CHR ''}'' # stack) cs
      else if c = CHR ''['' then scan (CHR '']'' # stack) cs
      else if c = CHR '')'' \<or> c = CHR ''}'' \<or> c = CHR '']'' then
        (case stack of [] \<Rightarrow> False | x # rest \<Rightarrow> x = c \<and> scan rest cs)
      else scan stack cs)"

definition balanced :: "string \<Rightarrow> bool" where
  "balanced s = scan [] s"

subsection \<open>Node's path module on POSIX\<close>

text \<open>
  \<^verbatim>\<open>path.extname\<close>: the extension of the last segment of the path (trailing slashes
  aside), from its last dot; empty when the segment has no dot, when its only dot is its
  first character, and when the segment is \<^verbatim>\<open>..\<close>.
\<close>

definition posix_extname :: "string \<Rightarrow> string" where
  "posix_extname path =
     (let stripped = rev (dropWhile (\<lambda>c. c = CHR ''/'') (rev path));
          base = rev (takeWhile (\<lambda>c. c \<noteq> CHR ''/'') (rev stripped));
          ext = rev (takeWhile (\<lambda>c. c \<noteq> CHR ''.'') (rev base))
      in if CHR ''.'' \<notin> set base then []
         else if length ext + 1 = length base then []
         else if base = ''..'' then []
         else CHR ''.'' # ext)"

text \<open>
  \<^verbatim>\<open>path.dirname\<close>: the path up to the slash before its last segment; the first
  character is never taken for that slash.
\<close>

definition posix_dirname :: "string \<Rightarrow> string" where
  "posix_dirname path =
     (case path of
        [] \<Rightarrow> ''.''
      | c # cs \<Rightarrow>
          (let before = dropWhile (\<lambda>c. c \<noteq> CHR ''/'')
                          (dropWhile (\<lambda>c. c = CHR ''/'') (rev cs))
           in case before of
                [] \<Rightarrow> (if c = CHR ''/'' then ''/'' else ''.'')
              | slash # kept \<Rightarrow>
                  (if c = CHR ''/'' \<and> kept = [] then ''//'' else c # rev kept)))"

text \<open>
  \<^verbatim>\<open>path.join\<close>: the non-empty arguments joined by slashes, then normalised: empty
  segments and \<^verbatim>\<open>.\<close> are dropped, \<^verbatim>\<open>..\<close> removes the segment before it (and stays
  only at the front of a relative path), a leading and a trailing slash are kept. The
  result is never empty: it is a dot when nothing is left.
\<close>

fun split_slash :: "string \<Rightarrow> string list" where
  "split_slash [] = [[]]"
| "split_slash (c # cs) =
     (if c = CHR ''/'' then [] # split_slash cs
      else (case split_slash cs of
              [] \<Rightarrow> [[c]]
            | seg # segs \<Rightarrow> (c # seg) # segs))"

fun normalize_segments :: "bool \<Rightarrow> string list \<Rightarrow> string list \<Rightarrow> string list" where
  "normalize_segments up res [] = rev res"
| "normalize_segments up res (seg # segs) =
     (if seg = [] \<or> seg = ''.'' then normalize_segments up res segs
      else if seg = ''..'' then
        (case res of
           [] \<Rightarrow>
             (if up then normalize_segments up [seg] segs
              else normalize_segments up res segs)
         | newest # older \<Rightarrow>
             (if newest = ''..'' then
                (if up then normalize_segments up (seg # res) segs
                 else normalize_segments up res segs)
              else normalize_segments up older segs))
      else normalize_segments up (seg # res) segs)"

definition posix_normalize :: "string \<Rightarrow> string" where
  "posix_normalize path =
     (case path of
        [] \<Rightarrow> ''.''
      | c # cs \<Rightarrow>
          (let isAbsolute = (c = CHR ''/'');
               trailingSeparator = (last path = CHR ''/'');
               p = join ''/'' (normalize_segments (\<not> isAbsolute) [] (split_slash path))
           in if p = [] then
                (if isAbsolute then ''/'' else if trailingSeparator then ''./'' else ''.'')
              else (if isAbsolute then ''/'' else []) @ p @
                   (if trailingSeparator then ''/'' else [])))"

definition posix_join :: "string list \<Rightarrow> string" where
  "posix_join segments =
     (let joined = join ''/'' (filter (\<lambda>segment. segment \<noteq> []) segments)
      in if joined = [] then ''.'' else posix_normalize joined)"

subsection \<open>Engines and installations to run the methods on\<close>

text \<open>
  Stand-ins for the template engines. For a template without tags hogan.js renders the
  template's text, and precompiles it to an object literal whose \<^verbatim>\<open>code\<close> function
  appends that text: \<open>hogan_precompiled\<close> is that literal for a text that needs no
  escape in a string literal. The other stand-ins return a function with its source text.
\<close>

definition hogan_precompiled :: "string \<Rightarrow> string" where
  "hogan_precompiled template =
     ''{code: function (c,p,i) { var t=this;t.b(i=i||'' @ [CHR 0x22, CHR 0x22] @
     '');t.b('' @ [CHR 0x22] @ template @ [CHR 0x22] @
     '');return t.fl(); },partials: {}, subs: {  }}''"

definition hogan_stub :: module where
  "hogan_stub =
     \<lparr>m_compile = (\<lambda>template options.
        if options = [AsString 1]
        then Inr (Str (hogan_precompiled template))
        else Inr (Obj (\<lambda>data. Inr template))),
      m_precompile = (\<lambda>template. Inl (Thrown ''TypeError''))\<rparr>"

definition ejs_stub :: module where
  "ejs_stub =
     \<lparr>m_compile = (\<lambda>template options.
        if template = ''<% if ( %>'' then Inl (Thrown ''SyntaxError'')
        else Inr (Fn (''function anonymous(locals) { return 1; }'') (\<lambda>data. Inr template))),
      m_precompile = (\<lambda>template. Inl (Thrown ''TypeError''))\<rparr>"

definition plain_stub :: module where
  "plain_stub =
     \<lparr>m_compile = (\<lambda>template options. Inr (Fn ''function (data) { }'' (\<lambda>data. Inr template))),
      m_precompile = (\<lambda>template. Inr (Str ''{}''))\<rparr>"

definition stub :: "string \<Rightarrow> module" where
  "stub engine =
     (if engine = ''hogan.js'' then hogan_stub
      else if engine = ''ejs'' then ejs_stub
      else plain_stub)"

text \<open>
  A Node installation on POSIX with the engines \<open>names\<close> installed under
  \<^verbatim>\<open>/node_modules\<close>, each with its main file in \<^verbatim>\<open>lib\<close>.
\<close>

definition node_with :: "string list \<Rightarrow> node" where
  "node_with names =
     \<lparr>node_require = (\<lambda>engine. if engine \<in> set names then Some (stub engine) else None),
      require_resolve = (\<lambda>engine.
        if engine \<in> set names then Some (''/node_modules/'' @ engine @ ''/lib/index.js'') else None),
      path_extname = posix_extname,
      path_dirname = posix_dirname,
      path_join = posix_join\<rparr>"

section \<open>Properties of the methods\<close>

subsection \<open>The Loader\<close>

lemma requires_cached:
  "required this engine = Some m \<Longrightarrow>
     requires nd this engine = (Inr m, this\<lparr>calls := calls this @ [Load engine]\<rparr>)"
  by (simp add: requires_def)

lemma requires_missing:
  "required this engine = None \<Longrightarrow> node_require nd engine = None \<Longrightarrow>
     requires nd this engine =
       (Inl (BackendNotInstalled
          (''The '' @ engine @ '' module isnt installed. Run npm install --save '' @ engine)),
        this\<lparr>calls := calls this @ [Load engine, Acquire engine]\<rparr>)"
  by (simp add: requires_def)

lemma requires_acquired:
  "required this engine = None \<Longrightarrow> node_require nd engine = Some m \<Longrightarrow>
     requires nd this engine =
       (Inr m, this\<lparr>calls := calls this @ [Load engine, Acquire engine],
                    required := (required this)(engine \<mapsto> m)\<rparr>)"
  by (simp add: requires_def)

lemma requires_cases:
  obtains (cached) m where "required this engine = Some m"
      "requires nd this engine = (Inr m, this\<lparr>calls := calls this @ [Load engine]\<rparr>)"
  | (missing) "required this engine = None" "node_require nd engine = None"
      "requires nd this engine =
       (Inl (BackendNotInstalled
          (''The '' @ engine @ '' module isnt installed. Run npm install --save '' @ engine)),
        this\<lparr>calls := calls this @ [Load engine, Acquire engine]\<rparr>)"
  | (acquired) m where "required this engine = None" "node_require nd engine = Some m"
     "requires nd this engine =
       (Inr m, this\<lparr>calls := calls this @ [Load engine, Acquire engine],
                    required := (required this)(engine \<mapsto> m)\<rparr>)"
  using requires_cached requires_missing requires_acquired
  by (cases "required this engine"; cases "node_require nd engine") auto

lemma loads_append: "loads (xs @ ys) = loads xs @ loads ys"
  by (induction xs rule: loads.induct) auto

lemma acquires_append: "acquires (xs @ ys) = acquires xs @ acquires ys"
  by (induction xs rule: acquires.induct) auto

lemma requires_result:
  "fst (requires nd this engine) =
     (case loaded nd this engine of
        None \<Rightarrow> Inl (BackendNotInstalled
          (''The '' @ engine @ '' module isnt installed. Run npm install --save '' @ engine))
      | Some m \<Rightarrow> Inr m)"
  by (cases rule: requires_cases[of this engine nd]) (auto simp: loaded_def)

lemma requires_loaded: "loaded nd (snd (requires nd this engine)) x = loaded nd this x"
  by (cases rule: requires_cases[of this engine nd]) (auto simp: loaded_def)

lemma requires_installed: "installed (snd (requires nd this engine)) = installed this"
  by (cases rule: requires_cases[of this engine nd]) (auto simp: loaded_def)

lemma requires_loads:
  "loads (calls (snd (requires nd this engine))) = loads (calls this) @ [engine]"
  by (cases rule: requires_cases[of this engine nd]) (auto simp: loads_append)

lemma requires_cache: "cache (snd (requires nd this engine)) = cache this"
  by (cases rule: requires_cases[of this engine nd]) auto

lemma requires_failed:
  "fst (requires nd this engine) = Inl e \<Longrightarrow>
     required (snd (requires nd this engine)) = required this"
  by (cases rule: requires_cases[of this engine nd]) (auto simp: loaded_def)

lemma loadable_requires: "loadable nd (snd (requires nd this engine)) = loadable nd this"
  by (rule ext) (simp add: loadable_def requires_loaded)

lemma loadable_None: "loaded nd this engine = None \<Longrightarrow> \<not> loadable nd this engine"
  by (simp add: loadable_def)

lemma loadable_Some: "loaded nd this engine = Some m \<Longrightarrow> loadable nd this engine"
  by (simp add: loadable_def)

lemma loaded_update:
  "loaded nd this engine = Some m \<Longrightarrow>
   loaded nd (this\<lparr>required := (required this)(engine \<mapsto> m), installed := i\<rparr>) x = loaded nd this x"
  by (auto simp: loaded_def split: option.splits)

subsection \<open>The filter over the candidates\<close>

text \<open>
  One step of the filter in terms of \<open>loaded\<close>; then, by induction on the candidates
  with the state generalised: the engines kept are the loadable ones, the Loader is
  called on every candidate, the Resolution Cache ends with the last loadable candidate,
  and nothing is written when none loads.
\<close>

lemma filter_engines_step:
  "filter_engines nd extname (engine # rest) this =
     (case loaded nd this engine of
        None \<Rightarrow> filter_engines nd extname rest (snd (requires nd this engine))
      | Some m \<Rightarrow>
          (let this3 = (snd (requires nd this engine))
                 \<lparr>required := (required (snd (requires nd this engine)))(engine \<mapsto> m),
                  installed := (installed this)(extname \<mapsto> engine)\<rparr>
           in (engine # fst (filter_engines nd extname rest this3),
               snd (filter_engines nd extname rest this3))))"
  using requires_result[of nd this engine] requires_installed[of nd this engine]
  by (cases "requires nd this engine")
     (auto split: option.splits sum.splits prod.splits simp: Let_def)

lemma filter_engines_found:
  "fst (filter_engines nd extname l this) = filter (loadable nd this) l"
proof (induction l arbitrary: this)
  case Nil
  then show ?case by simp
next
  case (Cons engine rest)
  show ?case
  proof (cases "loaded nd this engine")
    case None
    with Cons.IH show ?thesis
      by (simp add: filter_engines_step loadable_None loadable_requires
               del: filter_engines.simps)
  next
    case (Some m)
    let ?this1 = "snd (requires nd this engine)"
    let ?this3 = "?this1\<lparr>required := (required ?this1)(engine \<mapsto> m),
                         installed := (installed this)(extname \<mapsto> engine)\<rparr>"
    have "loaded nd ?this1 engine = Some m"
      using Some by (simp add: requires_loaded)
    then have "loadable nd ?this3 = loadable nd this"
      by (intro ext) (simp add: loadable_def loaded_update requires_loaded)
    with Some Cons.IH[of ?this3] show ?thesis
      by (simp add: filter_engines_step loadable_Some Let_def del: filter_engines.simps)
  qed
qed

lemma filter_engines_loads:
  "loads (calls (snd (filter_engines nd extname l this))) = loads (calls this) @ l"
proof (induction l arbitrary: this)
  case Nil
  then show ?case by simp
next
  case (Cons engine rest)
  show ?case
    by (cases "loaded nd this engine")
       (simp_all add: filter_engines_step Let_def Cons.IH requires_loads
                 del: filter_engines.simps)
qed

lemma filter_engines_loaded:
  "loaded nd (snd (filter_engines nd extname l this)) x = loaded nd this x"
proof (induction l arbitrary: this)
  case Nil
  then show ?case by simp
next
  case (Cons engine rest)
  show ?case
  proof (cases "loaded nd this engine")
    case None
    then show ?thesis
      by (simp add: filter_engines_step Cons.IH requires_loaded del: filter_engines.simps)
  next
    case (Some m)
    then have "loaded nd (snd (requires nd this engine)) engine = Some m"
      by (simp add: requires_loaded)
    with Some show ?thesis
      by (simp add: filter_engines_step Let_def Cons.IH loaded_update requires_loaded
               del: filter_engines.simps)
  qed
qed

lemma filter_engines_installed:
  "installed (snd (filter_engines nd extname l this)) extname =
     (if filter (loadable nd this) l = [] then installed this extname
      else Some (last (filter (loadable nd this) l)))"
proof (induction l arbitrary: this)
  case Nil
  then show ?case by simp
next
  case (Cons engine rest)
  show ?case
  proof (cases "loaded nd this engine")
    case None
    then show ?thesis
      by (simp add: filter_engines_step Cons.IH loadable_requires loadable_None
            requires_installed del: filter_engines.simps)
  next
    case (Some m)
    let ?this1 = "snd (requires nd this engine)"
    let ?this3 = "?this1\<lparr>required := (required ?this1)(engine \<mapsto> m),
                         installed := (installed this)(extname \<mapsto> engine)\<rparr>"
    have "loaded nd ?this1 engine = Some m"
      using Some by (simp add: requires_loaded)
    then have "loadable nd ?this3 = loadable nd this"
      by (intro ext) (simp add: loadable_def loaded_update requires_loaded)
    with Some Cons.IH[of ?this3] show ?thesis
      by (simp add: filter_engines_step Let_def loadable_Some del: filter_engines.simps)
  qed
qed

lemma filter_engines_none:
  "filter (loadable nd this) l = [] \<Longrightarrow>
     installed (snd (filter_engines nd extname l this)) = installed this \<and>
     required (snd (filter_engines nd extname l this)) = required this \<and>
     cache (snd (filter_engines nd extname l this)) = cache this"
proof (induction l arbitrary: this)
  case Nil
  then show ?case by simp
next
  case (Cons engine rest)
  let ?this1 = "snd (requires nd this engine)"
  from Cons.prems have none: "loaded nd this engine = None"
    by (cases "loaded nd this engine") (auto simp: loadable_def)
  from Cons.prems have rest: "filter (loadable nd this) rest = []"
    by (auto split: if_splits)
  then have "filter (loadable nd ?this1) rest = []"
    by (simp add: loadable_requires)
  from Cons.IH[OF this] none show ?case
    using requires_failed[of nd this engine] requires_result[of nd this engine]
    by (simp add: filter_engines_step requires_installed requires_cache
             del: filter_engines.simps)
qed

subsection \<open>Discovery\<close>

lemma discover_cached:
  "installed this (path_extname nd file) = Some engine \<Longrightarrow>
     discover nd this file = (Inr engine, this)"
  by (simp add: discover_def)

lemma discover_unknown:
  "installed this (path_extname nd file) = None \<Longrightarrow>
   supported (path_extname nd file) = None \<Longrightarrow>
     discover nd this file =
       (Inl (UnknownExtension ''Unknown file extensions, cannot detect template engine.''), this)"
  by (simp add: discover_def)

lemma discover_probe:
  "installed this (path_extname nd file) = None \<Longrightarrow>
   supported (path_extname nd file) = Some l \<Longrightarrow>
     discover nd this file =
       (case filter (loadable nd this) l of
          [] \<Rightarrow> Inl (NoBackendAvailable
                  (''No valid template engine installed, please install '' @ join ''or'' l))
        | first # others \<Rightarrow> Inr first,
        snd (filter_engines nd (path_extname nd file) l this))"
  using filter_engines_found[of nd "path_extname nd file" l this]
  by (cases "filter_engines nd (path_extname nd file) l this")
     (simp add: discover_def split: list.splits)

lemma find_filter: "find P l = Some x \<Longrightarrow> \<exists>others. filter P l = x # others"
  by (induction l) (auto split: if_splits)

lemma discover_loaded: "loaded nd (snd (discover nd this file)) x = loaded nd this x"
proof (cases "installed this (path_extname nd file)")
  case None
  then show ?thesis
    by (cases "supported (path_extname nd file)")
       (simp_all add: discover_unknown discover_probe filter_engines_loaded)
next
  case (Some engine)
  then show ?thesis by (simp add: discover_cached)
qed

text \<open>
  After a first call that probes, the Resolution Cache entry is the last loadable
  candidate, and a second call returns that entry without touching the state.
\<close>

lemma discover_cache_entry:
  assumes "installed this (path_extname nd file) = None"
      and "supported (path_extname nd file) = Some l"
      and "filter (loadable nd this) l \<noteq> []"
  shows "fst (discover nd this file) = Inr (hd (filter (loadable nd this) l))"
    and "installed (snd (discover nd this file)) (path_extname nd file) =
           Some (last (filter (loadable nd this) l))"
    and "discover nd (snd (discover nd this file)) file =
           (Inr (last (filter (loadable nd this) l)), snd (discover nd this file))"
proof -
  show "fst (discover nd this file) = Inr (hd (filter (loadable nd this) l))"
    using assms by (cases "filter (loadable nd this) l") (simp_all add: discover_probe)
  show entry: "installed (snd (discover nd this file)) (path_extname nd file) =
           Some (last (filter (loadable nd this) l))"
    using assms by (simp add: discover_probe filter_engines_installed)
  show "discover nd (snd (discover nd this file)) file =
           (Inr (last (filter (loadable nd this) l)), snd (discover nd this file))"
    using entry by (rule discover_cached)
qed

text \<open>The cache invariant holds of a new object and every method keeps it.\<close>

lemma wfD:
  "wf this \<Longrightarrow> installed this extname = Some engine \<Longrightarrow>
     (\<exists>l. supported extname = Some l \<and> engine \<in> set l) \<and> required this engine \<noteq> None"
  unfolding wf_def by blast

lemma wf_Temper: "wf Temper"
  by (simp add: wf_def Temper_def)

lemma wf_requires: "wf this \<Longrightarrow> wf (snd (requires nd this engine))"
  by (cases rule: requires_cases[of this engine nd]) (auto simp: wf_def)

lemma wf_filter_engines:
  "wf this \<Longrightarrow> supported extname = Some L \<Longrightarrow> set l \<subseteq> set L \<Longrightarrow>
     wf (snd (filter_engines nd extname l this))"
proof (induction l arbitrary: this)
  case Nil
  then show ?case by simp
next
  case (Cons engine rest)
  let ?this1 = "snd (requires nd this engine)"
  have wf1: "wf ?this1" using Cons.prems(1) by (rule wf_requires)
  show ?case
  proof (cases "loaded nd this engine")
    case None
    with Cons.IH[OF wf1 Cons.prems(2)] Cons.prems(3) show ?thesis
      by (simp add: filter_engines_step del: filter_engines.simps)
  next
    case (Some m)
    let ?this3 = "?this1\<lparr>required := (required ?this1)(engine \<mapsto> m),
                         installed := (installed this)(extname \<mapsto> engine)\<rparr>"
    have "wf ?this3"
      using wf1 Cons.prems(2,3) requires_installed[of nd this engine]
      by (auto simp: wf_def)
    with Cons.IH[OF _ Cons.prems(2), of ?this3] Cons.prems(3) Some show ?thesis
      by (simp add: filter_engines_step Let_def del: filter_engines.simps)
  qed
qed

lemma wf_discover: "wf this \<Longrightarrow> wf (snd (discover nd this file))"
proof (cases "installed this (path_extname nd file)")
  case None
  assume w: "wf this"
  show ?thesis
  proof (cases "supported (path_extname nd file)")
    case N: None
    with None w show ?thesis by (simp add: discover_unknown)
  next
    case (Some l)
    with None w wf_filter_engines[OF w Some, of l nd] show ?thesis
      by (simp add: discover_probe)
  qed
next
  case (Some engine)
  assume "wf this"
  with Some show ?thesis by (simp add: discover_cached)
qed

lemma wf_compile: "wf this \<Longrightarrow> wf (snd (compile nd this template engine name))"
  using wf_requires[of this nd engine]
  by (cases "requires nd this engine") (auto simp: compile_def split: sum.splits)

lemma reachable_wf: "reachable this \<Longrightarrow> wf this"
  by (induction rule: reachable.induct)
     (auto intro: wf_Temper wf_requires wf_discover wf_compile)

lemma wf_not_loadable:
  assumes "wf this" "supported extname = Some l" "\<forall>engine\<in>set l. \<not> loadable nd this engine"
  shows "installed this extname = None"
proof (cases "installed this extname")
  case None
  then show ?thesis .
next
  case (Some engine)
  with assms(1,2) have "engine \<in> set l" "required this engine \<noteq> None"
    using wfD[of this extname engine] by auto
  then have "loadable nd this engine"
    by (auto simp: loadable_def loaded_def)
  with assms(3) \<open>engine \<in> set l\<close> show ?thesis by blast
qed

lemma wf_unsupported:
  "wf this \<Longrightarrow> supported extname = None \<Longrightarrow> installed this extname = None"
  using wfD[of this extname] by (cases "installed this extname") auto

lemma discover_ejs:
  assumes "wf this" "path_extname nd file = ''.ejs''" "loadable nd this ''ejs''"
  shows "fst (discover nd this file) = Inr ''ejs''"
proof (cases "installed this ''.ejs''")
  case None
  with assms show ?thesis
    using discover_probe[of this nd "file" "[''ejs'']"] by (simp add: supported_def)
next
  case (Some engine)
  with wfD[OF assms(1) Some] have "engine = ''ejs''"
    by (simp add: supported_def)
  with Some assms(2) show ?thesis by (simp add: discover_cached)
qed

lemma sublist_join: "x \<in> set l \<Longrightarrow> sublist x (join sep l)"
proof (induction sep l rule: join.induct)
  case (3 sep x' y ys)
  then show ?case
    by (auto simp: sublist_append intro: sublist_appendI)
qed auto

subsection \<open>Compilation\<close>

lemma compile_result:
  "fst (compile nd this template engine name) =
     (case loaded nd this engine of
        None \<Rightarrow> Inl (BackendNotInstalled
          (''The '' @ engine @ '' module isnt installed. Run npm install --save '' @ engine))
      | Some compiler \<Rightarrow>
          bindE (switch_engine nd compiler template engine name) (\<lambda>(lib, cl, srv).
          bindE (read_library lib) (\<lambda>contents.
            Inr \<lparr>library = contents, client = cl, server = srv\<rparr>)))"
  using requires_result[of nd this engine]
  by (cases "requires nd this engine")
     (auto simp: compile_def split: sum.splits option.splits)

lemma compile_returns:
  "loaded nd this engine = Some compiler \<Longrightarrow>
   switch_engine nd compiler template engine name = Inr (lib, cl, srv) \<Longrightarrow>
   read_library lib = Inr contents \<Longrightarrow>
     fst (compile nd this template engine name) =
       Inr \<lparr>library = contents, client = cl, server = srv\<rparr>"
  by (simp add: compile_result bindE_def)

lemma compile_read_throws:
  "loaded nd this engine = Some compiler \<Longrightarrow>
   switch_engine nd compiler template engine name = Inr (Some p, cl, srv) \<Longrightarrow>
   p \<noteq> [] \<Longrightarrow>
     fst (compile nd this template engine name) = Inl (Thrown ''TypeError'')"
  by (simp add: compile_result bindE_def read_library_def)

lemma compile_Inr:
  assumes "fst (compile nd this template engine name) = Inr r"
  obtains compiler lib where "loaded nd this engine = Some compiler"
    and "switch_engine nd compiler template engine name = Inr (lib, client r, server r)"
    and "read_library lib = Inr (library r)"
  using assms
  by (auto simp: compile_result bindE_def split: option.splits sum.splits)

lemma switch_engine_library:
  assumes "switch_engine nd compiler template engine name = Inr (lib, cl, srv)"
  shows "case spec_runtime_library engine of
           None \<Rightarrow> lib = None
         | Some segments \<Rightarrow>
             (\<exists>file. require_resolve nd engine = Some file \<and>
                lib = Some (path_join nd (path_dirname nd file # segments)))"
  using assms
  by (auto simp: switch_engine_def spec_runtime_library_def bindE_def resolve_def
           split: if_splits sum.splits option.splits)

lemma switch_engine_other:
  "engine \<notin> dispatch_set \<Longrightarrow>
     switch_engine nd compiler template engine name = Inr (None, Undefined, Undefined)"
  by (simp add: switch_engine_def dispatch_set_def)

text \<open>
  For an engine with a runtime library the path is never empty, so line 175 calls
  \<^verbatim>\<open>this.read\<close>, which is not there: \<^verbatim>\<open>compile\<close> returns no result. Whatever result
  \<^verbatim>\<open>compile\<close> returns has the empty string as library.
\<close>

lemma compile_library_never_read:
  assumes "spec_runtime_library engine = Some segments"
      and "\<And>segments. path_join nd segments \<noteq> []"
  shows "fst (compile nd this template engine name) \<noteq> Inr r"
proof
  assume "fst (compile nd this template engine name) = Inr r"
  then obtain compiler lib
    where sw: "switch_engine nd compiler template engine name = Inr (lib, client r, server r)"
      and rd: "read_library lib = Inr (library r)"
    by (rule compile_Inr)
  from switch_engine_library[OF sw] assms(1) obtain main
    where "lib = Some (path_join nd (path_dirname nd main # segments))"
    by auto
  with rd assms(2) show False
    by (simp add: read_library_def)
qed

lemma compile_library_empty:
  assumes "fst (compile nd this template engine name) = Inr r"
  shows "library r = []"
proof -
  from assms obtain compiler lib where "read_library lib = Inr (library r)"
    by (rule compile_Inr)
  then show ?thesis
    by (auto simp: read_library_def split: option.splits if_splits)
qed

subsection \<open>String replacement and brackets\<close>

lemma substitution_plain:
  "\<not> dollar_pattern repl \<Longrightarrow> substitution matched pre post repl = repl"
  by (induction matched pre post repl rule: substitution.induct) auto

lemma no_dollar_no_pattern: "CHR ''$'' \<notin> set repl \<Longrightarrow> \<not> dollar_pattern repl"
  by (induction repl rule: dollar_pattern.induct) auto

lemma dollar_pattern_function: "dollar_pattern (''function '' @ name) = dollar_pattern name"
  by (cases name) simp_all

lemma find_first_split:
  "find_first pat s = Some (pre, post) \<Longrightarrow> s = pre @ pat @ post"
proof (induction s arbitrary: pre)
  case Nil
  then show ?case by (simp split: if_splits)
next
  case (Cons c cs)
  show ?case
  proof (cases "prefix pat (c # cs)")
    case True
    with Cons.prems have "pre = []" and "post = drop (length pat) (c # cs)"
      by simp_all
    moreover from True have "take (length pat) (c # cs) = pat"
      by (auto simp: prefix_def)
    then have "c # cs = pat @ drop (length pat) (c # cs)"
      by (metis append_take_drop_id)
    ultimately show ?thesis by simp
  next
    case False
    with Cons.prems obtain pre' where "find_first pat cs = Some (pre', post)" "pre = c # pre'"
      by (auto split: option.splits)
    with Cons.IH[of pre'] show ?thesis by simp
  qed
qed

lemma replace_plain:
  "find_first pat s = Some (pre, post) \<Longrightarrow> \<not> dollar_pattern repl \<Longrightarrow>
     replace s pat repl = pre @ repl @ post"
  by (simp add: replace_def substitution_plain)

lemma find_first_least:
  "find_first pat s = Some (pre, post) \<Longrightarrow> s = pre' @ pat @ post' \<Longrightarrow>
     length pre \<le> length pre'"
proof (induction s arbitrary: pre pre')
  case Nil
  then show ?case by (simp split: if_splits)
next
  case (Cons c cs)
  show ?case
  proof (cases "prefix pat (c # cs)")
    case True
    with Cons.prems(1) show ?thesis by simp
  next
    case False
    with Cons.prems(1) obtain pre0 where found: "find_first pat cs = Some (pre0, post)"
      and pre: "pre = c # pre0"
      by (auto split: option.splits)
    from False Cons.prems(2) have "pre' \<noteq> []"
      by (auto simp: prefix_def)
    with Cons.prems(2) obtain pre1 where "pre' = c # pre1" and "cs = pre1 @ pat @ post'"
      by (cases pre') auto
    with Cons.IH[OF found, of pre1] pre show ?thesis by simp
  qed
qed

lemma find_first_found:
  "sublist pat s \<Longrightarrow> \<exists>pre post. find_first pat s = Some (pre, post)"
proof (induction s)
  case Nil
  then show ?case by simp
next
  case (Cons c cs)
  then show ?case
    by (cases "prefix pat (c # cs)") (auto simp: sublist_Cons_right)
qed

lemma replace_first:
  assumes "sublist pat s" and "\<not> dollar_pattern repl"
  shows "\<exists>pre post. s = pre @ pat @ post \<and>
           (\<forall>pre' post'. s = pre' @ pat @ post' \<longrightarrow> length pre \<le> length pre') \<and>
           replace s pat repl = pre @ repl @ post"
proof -
  from assms(1) obtain pre post where found: "find_first pat s = Some (pre, post)"
    using find_first_found by blast
  have "s = pre @ pat @ post"
    using found by (rule find_first_split)
  moreover have "\<forall>pre' post'. s = pre' @ pat @ post' \<longrightarrow> length pre \<le> length pre'"
    using found by (blast intro: find_first_least)
  moreover have "replace s pat repl = pre @ repl @ post"
    using found assms(2) by (rule replace_plain)
  ultimately show ?thesis by blast
qed

lemma replace_absent: "find_first pat s = None \<Longrightarrow> replace s pat repl = s"
  by (simp add: replace_def)

lemma scan_append: "scan s p \<Longrightarrow> scan (s @ t) (p @ q) = scan t q"
proof (induction s p rule: scan.induct)
  case (1 stack)
  then show ?case by simp
next
  case (2 stack c cs)
  then show ?case
    by (cases stack) (simp_all split: if_splits)
qed

lemma scan_balanced: "balanced p \<Longrightarrow> scan t (p @ q) = scan t q"
  using scan_append[of "[]" p t q] by (simp add: balanced_def)

lemma hulk_wrapper_unbalanced:
  assumes "balanced p"
  shows "\<not> balanced (join [] [''(function hulk() {'', ''var template = new Hogan.Template('', p,
            '');'', ''return function render(data) { return template.render(data); };''])"
proof -
  have "scan [] (''(function hulk() {var template = new Hogan.Template('' @ p @ q)
          = scan '')})'' (p @ q)" for q
    by simp
  then show ?thesis
    using assms by (simp add: balanced_def scan_balanced)
qed

text \<open>
  Whatever balanced text hogan.js precompiles a template to, the client string that
  \<^verbatim>\<open>compile\<close> builds around it is not balanced.
\<close>

lemma hogan_client_unbalanced:
  assumes "switch_engine nd compiler template ''hogan.js'' name = Inr (lib, cl, srv)"
      and "m_compile compiler template [AsString 1] = Inr s"
      and "balanced (join_text s)"
  shows "\<exists>text. cl = Str text \<and> \<not> balanced text"
  using assms hulk_wrapper_unbalanced[OF assms(3)]
  by (auto simp: switch_engine_def bindE_def split: sum.splits)

subsection \<open>Running the methods on the stand-ins\<close>

lemmas run_defs = discover_def requires_def node_with_def Temper_def supported_def
  posix_extname_def loadable_def loaded_def

lemmas compile_defs = compile_def switch_engine_def bindE_def resolve_def read_library_def
  requires_def node_with_def Temper_def stub_def hogan_stub_def ejs_stub_def plain_stub_def
  posix_join_def posix_normalize_def posix_dirname_def hogan_precompiled_def

lemma posix_join_nonempty: "posix_join segments \<noteq> []"
  by (auto simp: posix_join_def posix_normalize_def Let_def split: list.splits)

text \<open>On a POSIX installation \<^verbatim>\<open>compile\<close> returns for no engine that has a runtime library.\<close>

lemma compile_posix_never_returns:
  "spec_runtime_library engine = Some segments \<Longrightarrow>
     fst (compile (node_with names) this template engine name) \<noteq> Inr r"
  by (rule compile_library_never_read) (simp_all add: node_with_def posix_join_nonempty)

section \<open>The claims\<close>

text \<open>
  C1, as amended. For an extension of the registry with no Resolution Cache entry and a
  loadable candidate, \<^verbatim>\<open>discover\<close> returns the first loadable candidate in registry
  order; the Loader is called on every candidate of the list, once each and in registry
  order, also on those after the first that loads.
\<close>

theorem discover_first_loadable:
  assumes "supported (path_extname nd file) = Some l"
      and "installed this (path_extname nd file) = None"
      and "find (loadable nd this) l = Some engine"
  shows "fst (discover nd this file) = Inr engine \<and>
         loads (calls (snd (discover nd this file))) = loads (calls this) @ l"
proof -
  from find_filter[OF assms(3)] obtain others
    where "filter (loadable nd this) l = engine # others" ..
  with assms(1,2) show ?thesis
    by (simp add: discover_probe filter_engines_loads)
qed

theorem discover_first_loadable_witness:
  "supported (path_extname (node_with [''mustache'', ''handlebars'']) ''index.mustache'') =
     Some [''hogan.js'', ''mustache'', ''handlebars''] \<and>
   find (loadable (node_with [''mustache'', ''handlebars'']) Temper)
     [''hogan.js'', ''mustache'', ''handlebars''] = Some ''mustache'' \<and>
   fst (discover (node_with [''mustache'', ''handlebars'']) Temper ''index.mustache'') =
     Inr ''mustache'' \<and>
   loads (calls (snd (discover (node_with [''mustache'', ''handlebars'']) Temper
     ''index.mustache''))) = [''hogan.js'', ''mustache'', ''handlebars'']"
  using discover_first_loadable[of "node_with [''mustache'', ''handlebars'']" "''index.mustache''"
          "[''hogan.js'', ''mustache'', ''handlebars'']" Temper "''mustache''"]
  by (simp add: node_with_def Temper_def supported_def posix_extname_def loadable_def loaded_def)

text \<open>
  C1 as stated fails: with hogan.js and mustache installed, \<^verbatim>\<open>discover\<close> on a
  \<^verbatim>\<open>.mustache\<close> file returns hogan.js, the first candidate, and the Loader is still
  called on mustache and on handlebars.
\<close>

theorem discover_probes_past_first_success:
  "supported (path_extname (node_with [''hogan.js'', ''mustache'']) ''index.mustache'') =
     Some [''hogan.js'', ''mustache'', ''handlebars''] \<and>
   installed Temper ''.mustache'' = None \<and>
   fst (discover (node_with [''hogan.js'', ''mustache'']) Temper ''index.mustache'') =
     Inr ''hogan.js'' \<and>
   calls (snd (discover (node_with [''hogan.js'', ''mustache'']) Temper ''index.mustache'')) =
     [Load ''hogan.js'', Acquire ''hogan.js'', Load ''mustache'', Acquire ''mustache'',
      Load ''handlebars'', Acquire ''handlebars'']"
  by (simp add: run_defs)

text \<open>
  C2 fails on the code: the callback of \<^verbatim>\<open>filter\<close> writes the Resolution Cache entry
  for every candidate that loads, so the entry is the last loadable candidate, while the
  first call returns the first. With hogan.js and handlebars installed the first call
  returns hogan.js, the entry is handlebars, and the second call returns handlebars.
\<close>

theorem discover_twice_differs:
  "fst (discover (node_with [''hogan.js'', ''handlebars'']) Temper ''index.mustache'') =
     Inr ''hogan.js'' \<and>
   installed (snd (discover (node_with [''hogan.js'', ''handlebars'']) Temper ''index.mustache''))
     ''.mustache'' = Some ''handlebars'' \<and>
   fst (discover (node_with [''hogan.js'', ''handlebars''])
          (snd (discover (node_with [''hogan.js'', ''handlebars'']) Temper ''index.mustache''))
          ''index.mustache'') = Inr ''handlebars''"
  by (simp add: run_defs)

text \<open>
  C3 fails on the code: line 175 calls \<^verbatim>\<open>this.read\<close> on the path of the runtime
  library, and the file defines no such method. With hogan.js, handlebars or jade
  installed, \<^verbatim>\<open>compile\<close> computes the path the claim names and then throws a TypeError
  instead of returning the library's contents. For ejs the library is the empty
  string, as claimed.
\<close>

theorem compile_library_throws:
  "map_sum id fst (switch_engine (node_with [''hogan.js'']) (stub ''hogan.js'')
      ''hi'' ''hogan.js'' ''greet'') = Inr (Some ''/node_modules/hogan.js/lib/template.js'') \<and>
   fst (compile (node_with [''hogan.js'']) Temper ''hi'' ''hogan.js'' ''greet'') =
     Inl (Thrown ''TypeError'') \<and>
   map_sum id fst (switch_engine (node_with [''handlebars'']) (stub ''handlebars'')
      ''hi'' ''handlebars'' ''greet'') =
     Inr (Some ''/node_modules/handlebars/dist/handlebars.runtime.js'') \<and>
   fst (compile (node_with [''handlebars'']) Temper ''hi'' ''handlebars'' ''greet'') =
     Inl (Thrown ''TypeError'') \<and>
   map_sum id fst (switch_engine (node_with [''jade'']) (stub ''jade'')
      ''hi'' ''jade'' ''greet'') = Inr (Some ''/node_modules/jade/lib/runtime.js'') \<and>
   fst (compile (node_with [''jade'']) Temper ''hi'' ''jade'' ''greet'') =
     Inl (Thrown ''TypeError'') \<and>
   map_sum id library (fst (compile (node_with [''ejs'']) Temper ''hi'' ''ejs'' ''greet'')) =
     Inr []"
  by (simp add: compile_defs replace_def)

text \<open>
  C4. \<^verbatim>\<open>Temper.prototype.require\<close>: a cached handle is returned as it is (nothing but
  the log of calls changes). Without one, when Node's \<^verbatim>\<open>require\<close> throws, the method
  fails with the BackendNotInstalled error, whose message names the engine and says
  \<^verbatim>\<open>Run npm install --save\<close> with the engine's name; the Load Cache is left as it was,
  and a second request fails the same way after calling Node's \<^verbatim>\<open>require\<close> again.
  When Node's \<^verbatim>\<open>require\<close> returns a module, the module is stored in the Load Cache
  under the engine's name and returned.
\<close>

theorem requires_load:
  "(required this engine = Some m \<longrightarrow>
      requires nd this engine = (Inr m, this\<lparr>calls := calls this @ [Load engine]\<rparr>)) \<and>
   (required this engine = None \<and> node_require nd engine = None \<longrightarrow>
      fst (requires nd this engine) =
        Inl (BackendNotInstalled
          (''The '' @ engine @ '' module isnt installed. Run npm install --save '' @ engine)) \<and>
      required (snd (requires nd this engine)) = required this \<and>
      fst (requires nd (snd (requires nd this engine)) engine) = fst (requires nd this engine) \<and>
      acquires (calls (snd (requires nd (snd (requires nd this engine)) engine))) =
        acquires (calls this) @ [engine, engine]) \<and>
   (required this engine = None \<and> node_require nd engine = Some m \<longrightarrow>
      fst (requires nd this engine) = Inr m \<and>
      required (snd (requires nd this engine)) = (required this)(engine \<mapsto> m))"
proof (intro conjI impI)
  assume "required this engine = Some m"
  then show "requires nd this engine = (Inr m, this\<lparr>calls := calls this @ [Load engine]\<rparr>)"
    by (rule requires_cached)
next
  assume absent: "required this engine = None \<and> node_require nd engine = None"
  let ?failed = "this\<lparr>calls := calls this @ [Load engine, Acquire engine]\<rparr>"
  have first: "requires nd this engine =
      (Inl (BackendNotInstalled
         (''The '' @ engine @ '' module isnt installed. Run npm install --save '' @ engine)),
       ?failed)"
    using absent by (simp add: requires_missing)
  have second: "requires nd ?failed engine =
      (Inl (BackendNotInstalled
         (''The '' @ engine @ '' module isnt installed. Run npm install --save '' @ engine)),
       ?failed\<lparr>calls := calls ?failed @ [Load engine, Acquire engine]\<rparr>)"
    using absent by (intro requires_missing) simp_all
  show "fst (requires nd this engine) =
      Inl (BackendNotInstalled
        (''The '' @ engine @ '' module isnt installed. Run npm install --save '' @ engine))"
    by (simp add: first)
  show "required (snd (requires nd this engine)) = required this"
    by (simp add: first)
  show "fst (requires nd (snd (requires nd this engine)) engine) = fst (requires nd this engine)"
    by (simp add: first second)
  show "acquires (calls (snd (requires nd (snd (requires nd this engine)) engine))) =
      acquires (calls this) @ [engine, engine]"
    by (simp add: first second acquires_append)
next
  assume fresh: "required this engine = None \<and> node_require nd engine = Some m"
  then have stored: "requires nd this engine =
      (Inr m, this\<lparr>calls := calls this @ [Load engine, Acquire engine],
                   required := (required this)(engine \<mapsto> m)\<rparr>)"
    by (simp add: requires_acquired)
  show "fst (requires nd this engine) = Inr m"
    by (simp add: stored)
  show "required (snd (requires nd this engine)) = (required this)(engine \<mapsto> m)"
    by (simp add: stored)
qed

theorem requires_load_witness:
  "fst (requires (node_with [''ejs'']) (Temper\<lparr>required := [''ejs'' \<mapsto> plain_stub]\<rparr>) ''ejs'') =
     Inr plain_stub \<and>
   fst (requires (node_with []) Temper ''ejs'') =
     Inl (BackendNotInstalled ''The ejs module isnt installed. Run npm install --save ejs'') \<and>
   required (snd (requires (node_with []) Temper ''ejs'')) = Map.empty \<and>
   acquires (calls (snd (requires (node_with [])
      (snd (requires (node_with []) Temper ''ejs'')) ''ejs''))) = [''ejs'', ''ejs''] \<and>
   fst (requires (node_with [''ejs'']) Temper ''ejs'') = Inr ejs_stub \<and>
   required (snd (requires (node_with [''ejs'']) Temper ''ejs'')) ''ejs'' = Some ejs_stub"
  using requires_load[of "Temper\<lparr>required := [''ejs'' \<mapsto> plain_stub]\<rparr>" "''ejs''" plain_stub
          "node_with [''ejs'']"]
        requires_load[of Temper "''ejs''" ejs_stub "node_with []"]
        requires_load[of Temper "''ejs''" ejs_stub "node_with [''ejs'']"]
  by (simp add: node_with_def Temper_def stub_def)

text \<open>
  C5. For an extension of the registry whose candidates all fail to load, \<^verbatim>\<open>discover\<close>
  fails with the NoBackendAvailable error; its message is the fixed text followed by the
  candidates of the registry, in order, joined by \<^verbatim>\<open>or\<close>, so each candidate stands in it.
\<close>

theorem discover_none_loadable:
  assumes "wf this"
      and "supported (path_extname nd file) = Some l"
      and "\<forall>engine\<in>set l. \<not> loadable nd this engine"
  shows "fst (discover nd this file) =
           Inl (NoBackendAvailable
                  (''No valid template engine installed, please install '' @ join ''or'' l)) \<and>
         (\<forall>engine\<in>set l. sublist engine (join ''or'' l))"
proof -
  have "installed this (path_extname nd file) = None"
    using assms by (rule wf_not_loadable)
  moreover have "filter (loadable nd this) l = []"
    using assms(3) by (simp add: filter_empty_conv)
  ultimately show ?thesis
    using assms(2) by (simp add: discover_probe sublist_join)
qed

theorem discover_none_loadable_witness:
  "wf Temper \<and>
   supported (path_extname (node_with [''ejs'']) ''index.mustache'') =
     Some [''hogan.js'', ''mustache'', ''handlebars''] \<and>
   fst (discover (node_with [''ejs'']) Temper ''index.mustache'') =
     Inl (NoBackendAvailable
       ''No valid template engine installed, please install hogan.jsormustacheorhandlebars'') \<and>
   sublist ''hogan.js'' ''hogan.jsormustacheorhandlebars'' \<and>
   sublist ''mustache'' ''hogan.jsormustacheorhandlebars'' \<and>
   sublist ''handlebars'' ''hogan.jsormustacheorhandlebars''"
  using discover_none_loadable[of Temper "node_with [''ejs'']" "''index.mustache''"
          "[''hogan.js'', ''mustache'', ''handlebars'']"] wf_Temper
  by (simp add: node_with_def Temper_def supported_def posix_extname_def loadable_def loaded_def)

text \<open>
  C6. For a file whose extension is not in the registry, \<^verbatim>\<open>discover\<close> fails with the
  UnknownExtension error and leaves the whole state as it was, the log of calls
  included: the Loader is not called.
\<close>

theorem discover_unknown_extension:
  assumes "wf this" and "supported (path_extname nd file) = None"
  shows "discover nd this file =
           (Inl (UnknownExtension ''Unknown file extensions, cannot detect template engine.''),
            this)"
  using assms by (simp add: discover_unknown wf_unsupported)

theorem discover_unknown_extension_witness:
  "wf Temper \<and>
   supported (path_extname (node_with [''ejs'']) ''index.html'') = None \<and>
   discover (node_with [''ejs'']) Temper ''index.html'' =
     (Inl (UnknownExtension ''Unknown file extensions, cannot detect template engine.''), Temper)"
  using discover_unknown_extension[of Temper "node_with [''ejs'']" "''index.html''"] wf_Temper
  by (simp add: node_with_def supported_def posix_extname_def)

text \<open>
  C7, as amended. For an identifier outside the dispatch set, \<^verbatim>\<open>compile\<close> first loads
  the engine (line 103). When the engine loads (from the Load Cache or from Node), the
  result has the empty string as library and \<^verbatim>\<open>undefined\<close> as client and server, and
  nothing is thrown; when it does not load, \<^verbatim>\<open>compile\<close> fails with the
  BackendNotInstalled error of the Loader.
\<close>

theorem compile_outside_dispatch:
  assumes "engine \<notin> dispatch_set"
  shows "(loadable nd this engine \<longrightarrow>
            fst (compile nd this template engine name) =
              Inr \<lparr>library = [], client = Undefined, server = Undefined\<rparr>) \<and>
         (\<not> loadable nd this engine \<longrightarrow>
            fst (compile nd this template engine name) =
              Inl (BackendNotInstalled
                (''The '' @ engine @ '' module isnt installed. Run npm install --save '' @ engine)))"
  using assms
  by (cases "loaded nd this engine")
     (simp_all add: compile_result switch_engine_other loadable_def bindE_def read_library_def)

theorem compile_outside_dispatch_witness:
  "''mustache'' \<notin> dispatch_set \<and>
   loadable (node_with [''mustache'']) Temper ''mustache'' \<and>
   fst (compile (node_with [''mustache'']) Temper ''hi'' ''mustache'' ''greet'') =
     Inr \<lparr>library = [], client = Undefined, server = Undefined\<rparr> \<and>
   \<not> loadable (node_with [''ejs'']) Temper ''mustache'' \<and>
   fst (compile (node_with [''ejs'']) Temper ''hi'' ''mustache'' ''greet'') =
     Inl (BackendNotInstalled
       ''The mustache module isnt installed. Run npm install --save mustache'')"
  using compile_outside_dispatch[of "''mustache''" "node_with [''mustache'']" Temper "''hi''" "''greet''"]
        compile_outside_dispatch[of "''mustache''" "node_with [''ejs'']" Temper "''hi''" "''greet''"]
  by (simp add: dispatch_set_def loadable_def loaded_def node_with_def Temper_def)

text \<open>
  C7 as stated fails: mustache is outside the dispatch set, and with only ejs installed
  \<^verbatim>\<open>compile\<close> with \<^verbatim>\<open>'mustache'\<close> throws the Loader's error.
\<close>

theorem compile_unknown_engine_throws:
  "''mustache'' \<notin> dispatch_set \<and>
   fst (compile (node_with [''ejs'']) Temper ''hi'' ''mustache'' ''greet'') =
     Inl (BackendNotInstalled
       ''The mustache module isnt installed. Run npm install --save mustache'')"
  by (simp add: compile_defs dispatch_set_def)

text \<open>
  C8, as amended. In a state that satisfies the cache invariant, with ejs loadable,
  \<^verbatim>\<open>discover\<close> on a file with extension \<^verbatim>\<open>.ejs\<close> returns ejs. When the engine's
  \<^verbatim>\<open>compile\<close> returns on the source, both without options and with client mode on and
  debug mode off, \<^verbatim>\<open>compile\<close> returns the empty string as library, the plain compile
  result as server, and as client the text of the client-mode result after
  \<^verbatim>\<open>replace('function anonymous', 'function ' + name)\<close>. When the name has none of
  the pairs \<^verbatim>\<open>$$\<close>, \<^verbatim>\<open>$&\<close>, \<^verbatim>\<open>$`\<close>, \<^verbatim>\<open>$'\<close> and the text has the placeholder, the
  client is the text with the first occurrence of the placeholder replaced by
  \<^verbatim>\<open>function\<close>, a space and the name.
\<close>

theorem compile_ejs:
  assumes "wf this"
      and "path_extname nd file = ''.ejs''"
      and "loaded nd this ''ejs'' = Some ejs"
      and "m_compile ejs src [] = Inr srv"
      and "m_compile ejs src [Client True, CompileDebug False] = Inr c"
      and "toString c = Inr s"
  shows "fst (discover nd this file) = Inr ''ejs'' \<and>
         fst (compile nd (snd (discover nd this file)) src ''ejs'' name) =
           Inr \<lparr>library = [],
                client = Str (replace s ''function anonymous'' (''function '' @ name)),
                server = srv\<rparr> \<and>
         (\<not> dollar_pattern name \<longrightarrow> sublist ''function anonymous'' s \<longrightarrow>
            (\<exists>pre post.
               s = pre @ ''function anonymous'' @ post \<and>
               (\<forall>pre' post'. s = pre' @ ''function anonymous'' @ post' \<longrightarrow>
                  length pre \<le> length pre') \<and>
               replace s ''function anonymous'' (''function '' @ name) =
                 pre @ ''function '' @ name @ post))"
proof -
  have "fst (discover nd this file) = Inr ''ejs''"
    using assms(1,2,3) by (simp add: discover_ejs loadable_def)
  moreover have "loaded nd (snd (discover nd this file)) ''ejs'' = Some ejs"
    using assms(3) by (simp add: discover_loaded)
  then have "fst (compile nd (snd (discover nd this file)) src ''ejs'' name) =
           Inr \<lparr>library = [],
                client = Str (replace s ''function anonymous'' (''function '' @ name)),
                server = srv\<rparr>"
    using assms(4,5,6)
    by (simp add: compile_result switch_engine_def bindE_def read_library_def)
  moreover have "\<exists>pre post.
               s = pre @ ''function anonymous'' @ post \<and>
               (\<forall>pre' post'. s = pre' @ ''function anonymous'' @ post' \<longrightarrow>
                  length pre \<le> length pre') \<and>
               replace s ''function anonymous'' (''function '' @ name) =
                 pre @ ''function '' @ name @ post"
    if "\<not> dollar_pattern name" and "sublist ''function anonymous'' s"
    using replace_first[OF that(2), of "''function '' @ name"] that(1)
    by (simp only: dollar_pattern_function append_assoc) simp
  ultimately show ?thesis by blast
qed

theorem compile_ejs_witness:
  "wf Temper \<and>
   path_extname (node_with [''ejs'']) ''greet.ejs'' = ''.ejs'' \<and>
   loaded (node_with [''ejs'']) Temper ''ejs'' = Some ejs_stub \<and>
   fst (discover (node_with [''ejs'']) Temper ''greet.ejs'') = Inr ''ejs'' \<and>
   map_sum id library (fst (compile (node_with [''ejs''])
     (snd (discover (node_with [''ejs'']) Temper ''greet.ejs'')) ''hi'' ''ejs'' ''greet'')) = Inr [] \<and>
   map_sum id client (fst (compile (node_with [''ejs''])
     (snd (discover (node_with [''ejs'']) Temper ''greet.ejs'')) ''hi'' ''ejs'' ''greet'')) =
     Inr (Str ''function greet(locals) { return 1; }'')"
  using compile_ejs[of Temper "node_with [''ejs'']" "''greet.ejs''" ejs_stub "''hi''"
          "Fn ''function anonymous(locals) { return 1; }'' (\<lambda>data. Inr ''hi'')"
          "Fn ''function anonymous(locals) { return 1; }'' (\<lambda>data. Inr ''hi'')"
          "''function anonymous(locals) { return 1; }''" "''greet''"] wf_Temper
  by (simp add: node_with_def Temper_def loaded_def stub_def ejs_stub_def posix_extname_def
        replace_def)

text \<open>
  C8 as stated fails at two inputs. For the name \<^verbatim>\<open>a$$b\<close> the placeholder is replaced
  by \<^verbatim>\<open>function a$b\<close>: \<^verbatim>\<open>replace\<close> reads \<^verbatim>\<open>$$\<close> in the replacement as one dollar
  sign. For a source the engine rejects, \<^verbatim>\<open>compile\<close> returns no result: the engine's
  exception leaves the method.
\<close>

theorem compile_ejs_fails:
  "map_sum id client (fst (compile (node_with [''ejs'']) Temper ''hi'' ''ejs'' ''a$$b'')) =
     Inr (Str ''function a$b(locals) { return 1; }'') \<and>
   fst (compile (node_with [''ejs'']) Temper ''<% if ( %>'' ''ejs'' ''greet'') =
     Inl (Thrown ''SyntaxError'')"
  by (simp add: compile_defs replace_def)

text \<open>
  C9 fails on the code: the wrapper that \<^verbatim>\<open>compile\<close> puts around the precompiled
  hogan.js template (lines 123-129) opens \<^verbatim>\<open>(function hulk() {\<close> and never closes the
  brace and the parenthesis. On a template whose precompiled form is balanced, the
  client string built there is not. (The call then ends at line 175 with the TypeError
  of the missing \<^verbatim>\<open>read\<close>, so no client is returned at all.)
\<close>

theorem hogan_client_not_closed:
  "loaded (node_with [''hogan.js'']) Temper ''hogan.js'' = Some hogan_stub \<and>
   map_sum id (fst \<circ> snd) (switch_engine (node_with [''hogan.js'']) hogan_stub
      ''hi'' ''hogan.js'' ''greet'') =
     Inr (Str (''(function hulk() {var template = new Hogan.Template('' @
               hogan_precompiled ''hi'' @
               '');return function render(data) { return template.render(data); };'')) \<and>
   balanced (hogan_precompiled ''hi'') \<and>
   \<not> balanced (''(function hulk() {var template = new Hogan.Template('' @
               hogan_precompiled ''hi'' @
               '');return function render(data) { return template.render(data); };'') \<and>
   fst (compile (node_with [''hogan.js'']) Temper ''hi'' ''hogan.js'' ''greet'') =
     Inl (Thrown ''TypeError'')"
  by (simp add: compile_defs balanced_def loaded_def)

text \<open>
  C10. When \<^verbatim>\<open>discover\<close> fails, the Resolution Cache and the Load Cache are what they
  were before the call.
\<close>

theorem discover_error_atomic:
  assumes "fst (discover nd this file) = Inl e"
  shows "installed (snd (discover nd this file)) = installed this \<and>
         required (snd (discover nd this file)) = required this"
proof (cases "installed this (path_extname nd file)")
  case (Some engine)
  then show ?thesis by (simp add: discover_cached)
next
  case None
  show ?thesis
  proof (cases "supported (path_extname nd file)")
    case N: None
    with None show ?thesis by (simp add: discover_unknown)
  next
    case (Some l)
    with None assms have "filter (loadable nd this) l = []"
      by (simp add: discover_probe split: list.splits)
    from filter_engines_none[OF this] None Some show ?thesis
      by (simp add: discover_probe)
  qed
qed

theorem discover_error_atomic_witness:
  "fst (discover (node_with [''ejs''])
     (Temper\<lparr>installed := [''.ejs'' \<mapsto> ''ejs''], required := [''ejs'' \<mapsto> ejs_stub]\<rparr>)
     ''index.html'') =
     Inl (UnknownExtension ''Unknown file extensions, cannot detect template engine.'') \<and>
   installed (snd (discover (node_with [''ejs''])
     (Temper\<lparr>installed := [''.ejs'' \<mapsto> ''ejs''], required := [''ejs'' \<mapsto> ejs_stub]\<rparr>)
     ''index.html'')) = [''.ejs'' \<mapsto> ''ejs''] \<and>
   required (snd (discover (node_with [''ejs''])
     (Temper\<lparr>installed := [''.ejs'' \<mapsto> ''ejs''], required := [''ejs'' \<mapsto> ejs_stub]\<rparr>)
     ''index.html'')) = [''ejs'' \<mapsto> ejs_stub] \<and>
   fst (discover (node_with [''ejs''])
     (Temper\<lparr>installed := [''.ejs'' \<mapsto> ''ejs''], required := [''ejs'' \<mapsto> ejs_stub]\<rparr>)
     ''index.mustache'') =
     Inl (NoBackendAvailable
       ''No valid template engine installed, please install hogan.jsormustacheorhandlebars'') \<and>
   installed (snd (discover (node_with [''ejs''])
     (Temper\<lparr>installed := [''.ejs'' \<mapsto> ''ejs''], required := [''ejs'' \<mapsto> ejs_stub]\<rparr>)
     ''index.mustache'')) = [''.ejs'' \<mapsto> ''ejs''] \<and>
   required (snd (discover (node_with [''ejs''])
     (Temper\<lparr>installed := [''.ejs'' \<mapsto> ''ejs''], required := [''ejs'' \<mapsto> ejs_stub]\<rparr>)
     ''index.mustache'')) = [''ejs'' \<mapsto> ejs_stub]"
  using discover_error_atomic[of "node_with [''ejs'']"
          "Temper\<lparr>installed := [''.ejs'' \<mapsto> ''ejs''], required := [''ejs'' \<mapsto> ejs_stub]\<rparr>"
          "''index.html''"
          "UnknownExtension ''Unknown file extensions, cannot detect template engine.''"]
        discover_error_atomic[of "node_with [''ejs'']"
          "Temper\<lparr>installed := [''.ejs'' \<mapsto> ''ejs''], required := [''ejs'' \<mapsto> ejs_stub]\<rparr>"
          "''index.mustache''"
          "NoBackendAvailable
       ''No valid template engine installed, please install hogan.jsormustacheorhandlebars''"]
  by (simp add: run_defs)

end
